theory Spec2Isabelle
  imports Main
begin

section \<open>JavaScript values and string helpers\<close>

text \<open>
  The option parser of \<^verbatim>\<open>src/option-parser.js\<close> works on dynamically typed values.
  The fields that the source tests with \<^verbatim>\<open>||\<close>, \<^verbatim>\<open>&&\<close> and \<^verbatim>\<open>!\<close> are kept as
  JavaScript values. Numbers are integers; \<open>js_string\<close> prints them in decimal, as
  JavaScript does for an integer below \<open>10^21\<close> in magnitude.
  Strings are byte strings. \<open>toLowerCase\<close> lowercases the letters \<^verbatim>\<open>A\<close> to \<^verbatim>\<open>Z\<close>, which
  is what \<^verbatim>\<open>String.prototype.toLowerCase\<close> does on an ASCII string; on a string with
  other letters the source lowercases those too. A statement about the lowercasing of an
  arbitrary token therefore carries the hypothesis \<open>ascii\<close>.
\<close>

datatype jsval = JUndefined | JNull | JBool bool | JNum int | JStr string

fun truthy :: "jsval \<Rightarrow> bool" where
  "truthy JUndefined = False"
| "truthy JNull = False"
| "truthy (JBool b) = b"
| "truthy (JNum n) = (n \<noteq> 0)"
| "truthy (JStr s) = (s \<noteq> [])"

text \<open>\<^verbatim>\<open>a || b\<close> on values.\<close>

definition js_or :: "jsval \<Rightarrow> jsval \<Rightarrow> jsval" where
  "js_or a b = (if truthy a then a else b)"

text \<open>
  A field that holds a string or \<^verbatim>\<open>null\<close>/\<^verbatim>\<open>undefined\<close> is a \<open>string option\<close>;
  \<^verbatim>\<open>a || b\<close> on such fields skips an absent or empty string.
\<close>

definition str_truthy :: "string option \<Rightarrow> bool" where
  "str_truthy a = (case a of None \<Rightarrow> False | Some s \<Rightarrow> s \<noteq> [])"

definition str_or :: "string option \<Rightarrow> string option \<Rightarrow> string option" where
  "str_or a b = (if str_truthy a then a else b)"

definition upper_chars :: string where
  "upper_chars = ''ABCDEFGHIJKLMNOPQRSTUVWXYZ''"

definition lower_chars :: string where
  "lower_chars = ''abcdefghijklmnopqrstuvwxyz''"

definition toLowerChar :: "char \<Rightarrow> char" where
  "toLowerChar c = (case map_of (zip upper_chars lower_chars) c of Some d \<Rightarrow> d | None \<Rightarrow> c)"

definition toUpperChar :: "char \<Rightarrow> char" where
  "toUpperChar c = (case map_of (zip lower_chars upper_chars) c of Some d \<Rightarrow> d | None \<Rightarrow> c)"

definition toLowerCase :: "string \<Rightarrow> string" where
  "toLowerCase s = map toLowerChar s"

definition ascii :: "string \<Rightarrow> bool" where
  "ascii s = list_all (\<lambda>c. (of_char c :: nat) < 128) s"

text \<open>\<^verbatim>\<open>String.prototype.startsWith\<close>: \<^verbatim>\<open>this.lastIndexOf(str, 0) === 0\<close>.\<close>

definition startsWith :: "string \<Rightarrow> string \<Rightarrow> bool" where
  "startsWith s p = (take (length p) s = p)"

text \<open>\<^verbatim>\<open>s.indexOf(c)\<close> for a one-character needle: the first position, or \<open>-1\<close>.\<close>

fun indexOf :: "string \<Rightarrow> char \<Rightarrow> int" where
  "indexOf [] c = - 1"
| "indexOf (x # xs) c =
     (if x = c then 0 else (let r = indexOf xs c in if r < 0 then - 1 else r + 1))"

text \<open>\<^verbatim>\<open>s.split(c)\<close> for a one-character separator.\<close>

fun split :: "string \<Rightarrow> char \<Rightarrow> string list" where
  "split [] c = [[]]"
| "split (x # xs) c =
     (if x = c then [] # split xs c
      else (case split xs c of [] \<Rightarrow> [[x]] | p # ps \<Rightarrow> (x # p) # ps))"

text \<open>
  \<^verbatim>\<open>String.prototype.toCamelCase\<close>:
  \<^verbatim>\<open>this.replace(/-([a-z])/g, function (g) { return g[1].toUpperCase() })\<close>.
\<close>

fun toCamelCase :: "string \<Rightarrow> string" where
  "toCamelCase (c # d # cs) =
     (if c = CHR ''-'' \<and> d \<in> set lower_chars then toUpperChar d # toCamelCase cs
      else c # toCamelCase (d # cs))"
| "toCamelCase cs = cs"

text \<open>String concatenation \<^verbatim>\<open>"" + v\<close> of a value.\<close>

fun digits :: "nat \<Rightarrow> string" where
  "digits n = (if n < 10 then [''0123456789'' ! n] else digits (n div 10) @ [''0123456789'' ! (n mod 10)])"

declare digits.simps [simp del]

fun js_string :: "jsval \<Rightarrow> string" where
  "js_string JUndefined = ''undefined''"
| "js_string JNull = ''null''"
| "js_string (JBool b) = (if b then ''true'' else ''false'')"
| "js_string (JNum n) = (if n < 0 then CHR ''-'' # digits (nat (- n)) else digits (nat n))"
| "js_string (JStr s) = s"

definition str_string :: "string option \<Rightarrow> string" where
  "str_string a = (case a of None \<Rightarrow> ''null'' | Some s \<Rightarrow> s)"

section \<open>Option\<close>

text \<open>
  \<^verbatim>\<open>OptionType\<close> holds five formatter functions; an Option's \<^verbatim>\<open>type\<close> is one of them
  and is compared by identity (\<^verbatim>\<open>opt.type === OptionType.help\<close>).
\<close>

datatype OptionType = Normal | Help | Separator | Note | Footer

text \<open>
  The object literal handed to \<^verbatim>\<open>new Option(opt)\<close>. The codes, the description and the
  id are strings when present. The \<^verbatim>\<open>data\<close> bag and the excess keys copied into it are
  read by the separator formatter and \<^verbatim>\<open>hasData\<close> only, which are not modelled.
\<close>

record ValueParams =
  p_current :: jsval
  p_default :: jsval
  p_value_required :: jsval

record OptionParams =
  p_longCode :: "string option"
  p_lCode :: "string option"
  p_shortCode :: "string option"
  p_sCode :: "string option"
  p_description :: "string option"
  p_desc :: "string option"
  p_type :: "OptionType option"
  p_value :: "ValueParams option"
  p_required :: jsval
  p_id :: "string option"

record OptionValue =
  current :: jsval
  default_value :: jsval
  value_required :: jsval

record OptionObj =
  longCode :: "string option"
  shortCode :: "string option"
  description :: "string option"
  otype :: OptionType
  val :: OptionValue
  required :: jsval
  oid :: "string option"

text \<open>\<^verbatim>\<open>(opt.value && opt.value.f) || d\<close>.\<close>

definition value_field :: "ValueParams option \<Rightarrow> (ValueParams \<Rightarrow> jsval) \<Rightarrow> jsval \<Rightarrow> jsval" where
  "value_field v f d = js_or (case v of None \<Rightarrow> JUndefined | Some w \<Rightarrow> f w) d"

text \<open>The constructor \<^verbatim>\<open>function Option(opt)\<close>.\<close>

definition new_Option :: "OptionParams \<Rightarrow> OptionObj" where
  "new_Option opt =
     (let lc = str_or (p_longCode opt) (str_or (p_lCode opt) None);
          sc = str_or (p_shortCode opt) (str_or (p_sCode opt) None)
      in \<lparr> longCode = lc,
           shortCode = sc,
           description = str_or (p_description opt) (str_or (p_desc opt) None),
           otype = (case p_type opt of None \<Rightarrow> Normal | Some t \<Rightarrow> t),
           val = \<lparr> current = value_field (p_value opt) p_current JNull,
                   default_value = value_field (p_value opt) p_default JNull,
                   value_required = value_field (p_value opt) p_value_required (JBool False) \<rparr>,
           required = js_or (p_required opt) (JBool False),
           oid = str_or (p_id opt) (str_or lc (str_or sc None)) \<rparr>)"

definition getCode :: "OptionObj \<Rightarrow> string option" where
  "getCode opt = str_or (longCode opt) (str_or (shortCode opt) None)"

definition getValue :: "OptionObj \<Rightarrow> jsval" where
  "getValue opt = current (val opt)"

definition hasDefaultValue :: "OptionObj \<Rightarrow> jsval" where
  "hasDefaultValue opt = default_value (val opt)"

definition valueIsRequired :: "OptionObj \<Rightarrow> jsval" where
  "valueIsRequired opt = value_required (val opt)"

definition getId :: "OptionObj \<Rightarrow> string option" where
  "getId opt =
     (let i = str_or (oid opt) (str_or (longCode opt) (str_or (shortCode opt) None))
      in if str_truthy i then map_option toCamelCase i else oid opt)"

section \<open>Formatter\<close>

text \<open>\<^verbatim>\<open>OptionType.normal\<close> and \<^verbatim>\<open>OptionType.help\<close>.\<close>

definition normal :: "OptionObj \<Rightarrow> string" where
  "normal opt =
     ''   ''
     @ (if str_truthy (shortCode opt) then ''-'' @ str_string (shortCode opt) @ '', '' else [])
     @ (if str_truthy (longCode opt) then ''--'' @ str_string (longCode opt) else [])
     @ (if truthy (valueIsRequired opt) then ''[=]'' else [])
     @ '': ''
     @ (if str_truthy (description opt) then str_string (description opt) else [])
     @ (if truthy (hasDefaultValue opt)
        then '' [default: '' @ js_string (default_value (val opt)) @ '']'' else [])
     @ [CHR 0x0A]"

definition help_option :: "OptionObj \<Rightarrow> string" where
  "help_option opt = normal opt"

section \<open>Schema\<close>

record OptionParser =
  args :: "string list"
  scriptName :: string
  options :: "OptionObj list"

text \<open>
  \<^verbatim>\<open>OptionParser.create(scriptName, options)\<close> passes its two arguments on as
  \<^verbatim>\<open>(args, scriptName)\<close>; the host calls it with the argument vector alone.
\<close>

definition create :: "string list \<Rightarrow> string option \<Rightarrow> OptionParser" where
  "create a b =
     \<lparr> args = a,
       scriptName = str_string (str_or b (str_or (case a of [] \<Rightarrow> None | x # _ \<Rightarrow> Some x) (Some []))),
       options = [] \<rparr>"

text \<open>The test of the loop in \<^verbatim>\<open>findOption\<close>; \<^verbatim>\<open>id\<close> may be \<^verbatim>\<open>null\<close>.\<close>

definition option_matches :: "OptionObj \<Rightarrow> string option \<Rightarrow> bool" where
  "option_matches opt k = (getId opt = k \<or> longCode opt = k \<or> shortCode opt = k)"

text \<open>
  \<^verbatim>\<open>findOption\<close> returns a reference to an element of \<^verbatim>\<open>self.options\<close>; the index of
  that element stands for the reference. Each element is an object of its own, built by
  \<^verbatim>\<open>addOption\<close>.
\<close>

fun findOptionIndex :: "OptionObj list \<Rightarrow> string option \<Rightarrow> nat option" where
  "findOptionIndex [] k = None"
| "findOptionIndex (opt # rest) k =
     (if option_matches opt k then Some 0 else map_option Suc (findOptionIndex rest k))"

definition findOption :: "OptionObj list \<Rightarrow> string option \<Rightarrow> OptionObj option" where
  "findOption opts k = map_option (\<lambda>i. opts ! i) (findOptionIndex opts k)"

text \<open>One registration: the body shared by both branches of \<^verbatim>\<open>addOption\<close>.\<close>

definition register :: "OptionObj list \<Rightarrow> OptionParams \<Rightarrow> OptionObj list" where
  "register opts op =
     (let option = new_Option op; found = findOption opts (getId option)
      in case found of None \<Rightarrow> opts @ [option] | Some _ \<Rightarrow> opts)"

datatype AddArg = Single OptionParams | Many "OptionParams list"

definition addOption :: "OptionParser \<Rightarrow> AddArg \<Rightarrow> OptionParser" where
  "addOption self a =
     (case a of
        Many ops \<Rightarrow> self\<lparr>options := foldl register (options self) ops\<rparr>
      | Single op \<Rightarrow> self\<lparr>options := register (options self) op\<rparr>)"

section \<open>Parser\<close>

datatype js_exn = TypeError

record ErrorObj =
  msg :: string
  code :: int

text \<open>\<^verbatim>\<open>OptionParser.generateError\<close>: \<^verbatim>\<open>{ msg: msg || "", code: code || -1 }\<close>.\<close>

definition generateError :: "string \<Rightarrow> int option \<Rightarrow> ErrorObj" where
  "generateError m c =
     \<lparr> msg = m, code = (case c of None \<Rightarrow> - 1 | Some n \<Rightarrow> if n = 0 then - 1 else n) \<rparr>"

text \<open>
  The callback is supplied by the host. Its invocations are recorded in order:
  \<^verbatim>\<open>callback(error, null)\<close>, \<^verbatim>\<open>callback(true, null)\<close> and \<^verbatim>\<open>callback(null, self.options)\<close>.
  The callback is taken to return normally and to leave the options alone.
\<close>

datatype Callback = Failure ErrorObj | HelpRequested | Success "OptionObj list"

text \<open>\<^verbatim>\<open>opt.value.current = v\<close> on the option that \<^verbatim>\<open>findOption\<close> returned.\<close>

definition set_current :: "OptionObj list \<Rightarrow> nat \<Rightarrow> jsval \<Rightarrow> OptionObj list" where
  "set_current opts k v = opts[k := (opts ! k)\<lparr>val := (val (opts ! k))\<lparr>current := v\<rparr>\<rparr>]"

text \<open>
  Lines 211 to 215: \<^verbatim>\<open>argCode\<close> is a variable of the whole function, \<^verbatim>\<open>undefined\<close>
  until a token with a dash has been seen, and kept from the previous token otherwise.
\<close>

definition classify :: "string option \<Rightarrow> string \<Rightarrow> string option" where
  "classify argCode arg =
     (if startsWith arg ''--'' then Some (toLowerCase (drop 2 arg))
      else if startsWith arg ''-'' then Some (drop 1 arg)
      else argCode)"

text \<open>Lines 218 to 221, for a string \<^verbatim>\<open>argCode\<close>.\<close>

definition stripInline :: "string \<Rightarrow> string" where
  "stripInline argCode =
     (let index = indexOf argCode CHR ''=''
      in if index \<ge> 1 then take (nat index) argCode else argCode)"

text \<open>\<^verbatim>\<open>arg.split("=")[1]\<close>.\<close>

definition inlineValue :: "string \<Rightarrow> jsval" where
  "inlineValue arg =
     (let parts = split arg CHR ''='' in if 1 < length parts then JStr (parts ! 1) else JUndefined)"

text \<open>
  The body of the token loop at index \<open>i\<close>. It returns the index of the last token it
  used, \<^verbatim>\<open>argCode\<close>, the options and the callbacks it made; \<^verbatim>\<open>argCode.indexOf\<close> on
  \<^verbatim>\<open>undefined\<close> raises a \<^verbatim>\<open>TypeError\<close>.
\<close>

definition token_step ::
  "string list \<Rightarrow> nat \<Rightarrow> string option \<Rightarrow> OptionObj list \<Rightarrow>
   js_exn + (nat \<times> string option \<times> OptionObj list \<times> Callback list)" where
  "token_step as i argCode0 opts =
     (let arg = as ! i in
      case classify argCode0 arg of
        None \<Rightarrow> Inl TypeError
      | Some c \<Rightarrow>
          (let argCode = stripInline c in
           case findOptionIndex opts (Some argCode) of
             None \<Rightarrow>
               Inr (i, Some argCode, opts,
                    [Failure (generateError (argCode @ '' not found in options'') None)])
           | Some k \<Rightarrow>
               (let opt = opts ! k;
                    helped = (if otype opt = Help then [HelpRequested] else []);
                    nextArg = (if i + 1 < length as then Some (as ! (i + 1)) else None);
                    noValue = (case nextArg of None \<Rightarrow> True
                               | Some n \<Rightarrow> n = [] \<or> startsWith n ''-'')
                in if indexOf arg CHR ''='' \<ge> 1
                   then Inr (i, Some argCode, set_current opts k (inlineValue arg), helped)
                   else if noValue
                   then Inr (i, Some argCode, set_current opts k (JBool True),
                             helped @
                             (if truthy (valueIsRequired opt) \<and> \<not> truthy (getValue opt)
                              then [Failure (generateError (argCode @ '' requires a value'') None)]
                              else []))
                   else Inr (i + 1, Some argCode,
                             set_current opts k (JStr (case nextArg of None \<Rightarrow> [] | Some n \<Rightarrow> n)),
                             helped))))"

text \<open>
  The loop \<^verbatim>\<open>for (i = 1; i < self.args.length; i += 1)\<close>. An exception ends it; it can
  only come up at the first token, where no callback has been made yet.
\<close>

function parse_loop ::
  "string list \<Rightarrow> nat \<Rightarrow> string option \<Rightarrow> OptionObj list \<Rightarrow> Callback list \<Rightarrow>
   js_exn + (OptionObj list \<times> Callback list)" where
  "parse_loop as i argCode opts calls =
     (if i < length as
      then (case token_step as i argCode opts of
              Inl e \<Rightarrow> Inl e
            | Inr (i', argCode', opts', new) \<Rightarrow>
                parse_loop as (Suc i') argCode' opts' (calls @ new))
      else Inr (opts, calls))"
  by pat_completeness auto
termination
  by (relation "measure (\<lambda>(as, i, argCode, opts, calls). length as - i)")
     (auto simp: token_step_def Let_def split: option.splits if_splits)

declare parse_loop.simps [simp del]

text \<open>The body of \<^verbatim>\<open>self.options.forEach\<close> in the pass over the required switches.\<close>

definition is_string :: "jsval \<Rightarrow> bool" where
  "is_string v = (case v of JStr _ \<Rightarrow> True | _ \<Rightarrow> False)"

definition check_required :: "OptionObj list \<Rightarrow> OptionObj \<Rightarrow> Callback list" where
  "check_required opts option =
     (if truthy (required option) \<and> is_string (required option)
      then (case findOption opts (Some (js_string (required option))) of
              None \<Rightarrow> []
            | Some found \<Rightarrow>
                if \<not> truthy (getValue option) \<and> \<not> truthy (getValue found)
                then [Failure (generateError
                        (str_string (getCode option) @ '' -OR- '' @ str_string (getCode found)
                         @ '' is required'') None)]
                else [])
      else if truthy (required option) \<and> \<not> truthy (getValue option)
      then [Failure (generateError (str_string (getCode option) @ '' is required'') None)]
      else [])"

text \<open>
  \<^verbatim>\<open>OptionParser.prototype.parse\<close>: the callbacks made, in order, and the parser with its
  options as the loop left them; or the exception that ended the call.
\<close>

definition parse :: "OptionParser \<Rightarrow> js_exn + (Callback list \<times> OptionParser)" where
  "parse self =
     (case parse_loop (args self) 1 None (options self) [] of
        Inl e \<Rightarrow> Inl e
      | Inr (opts, calls) \<Rightarrow>
          Inr (calls @ concat (map (check_required opts) opts) @ [Success opts],
               self\<lparr>options := opts\<rparr>))"

section \<open>The host's schema\<close>

text \<open>
  The object literal \<^verbatim>\<open>{}\<close>, and four of the specs that the host script registers
  (lines 607 to 620, 645 to 650 and 742 to 747): \<^verbatim>\<open>url\<close>, \<^verbatim>\<open>html\<close>,
  \<^verbatim>\<open>output-base64-format\<close> and \<^verbatim>\<open>debug\<close>.
\<close>

definition no_params :: OptionParams where
  "no_params =
     \<lparr> p_longCode = None, p_lCode = None, p_shortCode = None, p_sCode = None,
       p_description = None, p_desc = None, p_type = None, p_value = None,
       p_required = JUndefined, p_id = None \<rparr>"

definition no_value :: ValueParams where
  "no_value = \<lparr> p_current = JUndefined, p_default = JUndefined, p_value_required = JUndefined \<rparr>"

definition url_params :: OptionParams where
  "url_params =
     no_params\<lparr> p_longCode := Some ''url'', p_shortCode := Some ''u'',
       p_description := Some ''a URL to load'',
       p_value := Some (no_value\<lparr> p_value_required := JBool True \<rparr>),
       p_required := JStr ''html'' \<rparr>"

definition html_params :: OptionParams where
  "html_params =
     no_params\<lparr> p_longCode := Some ''html'', p_shortCode := Some ''h'',
       p_description := Some ''string of HTML to be loaded (HTML must be valid-ish)'',
       p_value := Some (no_value\<lparr> p_value_required := JBool True \<rparr>),
       p_required := JStr ''url'' \<rparr>"

definition output_base64_format_params :: OptionParams where
  "output_base64_format_params =
     no_params\<lparr> p_longCode := Some ''output-base64-format'', p_shortCode := Some ''OF'',
       p_description := Some ''output page image base64 format'',
       p_value := Some (no_value\<lparr> p_value_required := JBool True, p_default := JStr ''PNG'' \<rparr>) \<rparr>"

definition debug_params :: OptionParams where
  "debug_params =
     no_params\<lparr> p_longCode := Some ''debug'',
       p_description := Some ''prints more verbose output'',
       p_value := Some (no_value\<lparr> p_default := JBool False \<rparr>) \<rparr>"

text \<open>The parser of the end-to-end scenarios: \<^verbatim>\<open>url\<close> and \<^verbatim>\<open>html\<close>, each requiring the other.\<close>

definition url_html_parser :: "string list \<Rightarrow> OptionParser" where
  "url_html_parser as = addOption (create as None) (Many [url_params, html_params])"

text \<open>
  The schemas that \<^verbatim>\<open>addOption\<close> builds: each option is the first one that its own
  normalized id finds, and no id is the empty string.
\<close>

definition well_registered :: "OptionObj list \<Rightarrow> bool" where
  "well_registered opts =
     (\<forall>i<length opts. findOptionIndex opts (getId (opts ! i)) = Some i \<and> oid (opts ! i) \<noteq> Some [])"

section \<open>Evaluation and lookup lemmas\<close>

lemmas string_ops = startsWith_def toLowerCase_def toLowerChar_def toUpperChar_def
  upper_chars_def lower_chars_def stripInline_def inlineValue_def classify_def

lemmas option_ops = new_Option_def getCode_def getValue_def getId_def hasDefaultValue_def
  valueIsRequired_def value_field_def js_or_def str_or_def str_truthy_def str_string_def
  option_matches_def findOption_def set_current_def is_string_def generateError_def

lemmas schema_ops = create_def addOption_def register_def no_params_def no_value_def
  url_params_def html_params_def output_base64_format_params_def debug_params_def
  url_html_parser_def

lemmas parse_ops = parse_def parse_loop.simps token_step_def check_required_def

lemma url_html_options:
  "options (url_html_parser as) = [new_Option url_params, new_Option html_params]"
  by (simp add: schema_ops option_ops string_ops Let_def)

lemma findOptionIndex_Some_iff:
  "findOptionIndex opts k = Some i \<longleftrightarrow>
     i < length opts \<and> option_matches (opts ! i) k \<and> (\<forall>j<i. \<not> option_matches (opts ! j) k)"
proof (induction opts arbitrary: i)
  case Nil
  then show ?case by simp
next
  case (Cons a opts)
  show ?case
  proof (cases "option_matches a k")
    case True
    then show ?thesis by (cases i) auto
  next
    case False
    show ?thesis
    proof (cases i)
      case 0
      with False show ?thesis by simp
    next
      case (Suc n)
      have "(\<forall>j<Suc n. \<not> option_matches ((a # opts) ! j) k) \<longleftrightarrow>
            (\<forall>j<n. \<not> option_matches (opts ! j) k)"
        using False by (auto simp: less_Suc_eq_0_disj)
      with False Suc Cons.IH [of n] show ?thesis by auto
    qed
  qed
qed

lemma findOptionIndex_None_iff:
  "findOptionIndex opts k = None \<longleftrightarrow> (\<forall>opt \<in> set opts. \<not> option_matches opt k)"
  by (induction opts) auto

lemma findOptionIndex_append:
  "findOptionIndex (opts @ [opt]) k =
     (case findOptionIndex opts k of
        Some i \<Rightarrow> Some i
      | None \<Rightarrow> if option_matches opt k then Some (length opts) else None)"
  by (induction opts) (auto split: option.splits)

lemma findOption_None_iff: "findOption opts k = None \<longleftrightarrow> findOptionIndex opts k = None"
  by (simp add: findOption_def)

lemma toLowerChar_eq_sign: "CHR ''='' = toLowerChar c \<longleftrightarrow> c = CHR ''=''"
  by (auto simp: toLowerChar_def upper_chars_def lower_chars_def split: if_splits)

lemma indexOf_absent: "c \<notin> set s \<Longrightarrow> indexOf s c = - 1"
  by (induction s) (auto simp: Let_def)

lemma stripInline_no_eq: "CHR ''='' \<notin> set s \<Longrightarrow> stripInline s = s"
  by (simp add: stripInline_def indexOf_absent)

lemma toLowerCase_no_eq: "CHR ''='' \<notin> set X \<Longrightarrow> CHR ''='' \<notin> set (toLowerCase X)"
  by (induction X) (auto simp: toLowerCase_def toLowerChar_eq_sign)

lemma toLowerChar_idem: "toLowerChar (toLowerChar c) = toLowerChar c"
  by (auto simp: toLowerChar_def upper_chars_def lower_chars_def split: if_splits)

lemma toLowerCase_idem: "toLowerCase (toLowerCase s) = toLowerCase s"
  by (simp add: toLowerCase_def toLowerChar_idem)

lemma classify_long: "classify prev (''--'' @ X) = Some (toLowerCase X)"
  by (simp add: classify_def startsWith_def)

section \<open>End-to-end scenarios\<close>

text \<open>
  C6. With the schema of \<^verbatim>\<open>url\<close> (required: \<^verbatim>\<open>"html"\<close>) and \<^verbatim>\<open>html\<close> (required:
  \<^verbatim>\<open>"url"\<close>), both requiring a value, parsing \<^verbatim>\<open>["prog", "--url", "http://x"]\<close> makes
  one callback only, \<^verbatim>\<open>callback(null, self.options)\<close> with the two options in order;
  \<^verbatim>\<open>url.getValue()\<close> is \<^verbatim>\<open>"http://x"\<close> and \<^verbatim>\<open>html.getValue()\<close> is \<^verbatim>\<open>null\<close>.
\<close>

theorem scenario_B_success:
  "parse (url_html_parser [''prog'', ''--url'', ''http://x'']) =
     Inr ([Success (set_current (options (url_html_parser [''prog'', ''--url'', ''http://x''])) 0 (JStr ''http://x''))],
          (url_html_parser [''prog'', ''--url'', ''http://x''])
            \<lparr>options := set_current (options (url_html_parser [''prog'', ''--url'', ''http://x''])) 0 (JStr ''http://x'')\<rparr>)
   \<and> map getId (set_current (options (url_html_parser [''prog'', ''--url'', ''http://x''])) 0 (JStr ''http://x''))
       = [Some ''url'', Some ''html'']
   \<and> map getValue (set_current (options (url_html_parser [''prog'', ''--url'', ''http://x''])) 0 (JStr ''http://x''))
       = [JStr ''http://x'', JNull]"
  by (simp add: parse_ops schema_ops option_ops string_ops Let_def)

text \<open>
  C3. \<^verbatim>\<open>parse\<close> is to report every error through the callback and never to throw. On
  \<^verbatim>\<open>["prog", "foo"]\<close>, with any schema, the first token after the program name starts
  with no dash, \<^verbatim>\<open>argCode\<close> is still \<^verbatim>\<open>undefined\<close>, and \<^verbatim>\<open>argCode.indexOf("=")\<close> ends the
  call with a \<^verbatim>\<open>TypeError\<close> before any callback is made.
\<close>

theorem parse_throws_on_plain_token:
  "parse (self\<lparr>args := [''prog'', ''foo'']\<rparr>) = Inl TypeError"
  by (simp add: parse_ops string_ops)

text \<open>
  C5. When no option's id, long code or short code is \<^verbatim>\<open>bogus\<close>, the token
  \<^verbatim>\<open>--bogus\<close> makes the callback \<^verbatim>\<open>({ msg: "bogus not found in options", code: -1 }, null)\<close>
  and the loop goes on with the next token; parsing \<^verbatim>\<open>["prog", "--bogus"]\<close> makes that
  callback first, then the pass over the required switches and the final callback.
\<close>

theorem unknown_flag_reported:
  assumes "findOption opts (Some ''bogus'') = None"
  shows "(i < length as \<and> as ! i = ''--bogus'' \<longrightarrow>
            parse_loop as i prev opts calls =
            parse_loop as (Suc i) (Some ''bogus'') opts
              (calls @ [Failure \<lparr>msg = ''bogus not found in options'', code = - 1\<rparr>]))
       \<and> parse \<lparr>args = [prog, ''--bogus''], scriptName = n, options = opts\<rparr> =
           Inr (Failure \<lparr>msg = ''bogus not found in options'', code = - 1\<rparr>
                  # concat (map (check_required opts) opts) @ [Success opts],
                \<lparr>args = [prog, ''--bogus''], scriptName = n, options = opts\<rparr>)"
proof -
  have code: "classify prev ''--bogus'' = Some ''bogus''" for prev
    by (simp add: string_ops)
  have strip: "stripInline ''bogus'' = ''bogus''"
    by (simp add: string_ops)
  have idx: "findOptionIndex opts (Some ''bogus'') = None"
    using assms by (simp add: findOption_None_iff)
  have step: "token_step as i prev opts =
      Inr (i, Some ''bogus'', opts, [Failure \<lparr>msg = ''bogus not found in options'', code = - 1\<rparr>])"
    if "as ! i = ''--bogus''" for as i prev
    using that by (simp add: token_step_def code strip idx generateError_def)
  have loop: "parse_loop as i prev opts calls =
      parse_loop as (Suc i) (Some ''bogus'') opts
        (calls @ [Failure \<lparr>msg = ''bogus not found in options'', code = - 1\<rparr>])"
    if "i < length as" "as ! i = ''--bogus''" for as i prev calls
    using that by (subst parse_loop.simps) (simp add: step)
  have "parse_loop [prog, ''--bogus''] (Suc 0) None opts [] =
      parse_loop [prog, ''--bogus''] (Suc (Suc 0)) (Some ''bogus'') opts
        ([] @ [Failure \<lparr>msg = ''bogus not found in options'', code = - 1\<rparr>])"
    by (rule loop) simp_all
  also have "\<dots> = Inr (opts, [Failure \<lparr>msg = ''bogus not found in options'', code = - 1\<rparr>])"
    by (subst parse_loop.simps) simp
  finally show ?thesis
    using loop by (simp add: parse_def)
qed

theorem unknown_flag_reported_witness:
  "findOption (options (url_html_parser [])) (Some ''bogus'') = None
   \<and> parse \<lparr>args = [''prog'', ''--bogus''], scriptName = ''prog'',
             options = options (url_html_parser [])\<rparr> =
       Inr ([Failure \<lparr>msg = ''bogus not found in options'', code = - 1\<rparr>,
             Failure \<lparr>msg = ''url -OR- html is required'', code = - 1\<rparr>,
             Failure \<lparr>msg = ''html -OR- url is required'', code = - 1\<rparr>,
             Success (options (url_html_parser []))],
            \<lparr>args = [''prog'', ''--bogus''], scriptName = ''prog'',
             options = options (url_html_parser [])\<rparr>)"
proof -
  have none: "findOption (options (url_html_parser [])) (Some ''bogus'') = None"
    by (simp add: url_html_options schema_ops option_ops string_ops Let_def)
  have req: "concat (map (check_required (options (url_html_parser []))) (options (url_html_parser []))) =
     [Failure \<lparr>msg = ''url -OR- html is required'', code = - 1\<rparr>,
      Failure \<lparr>msg = ''html -OR- url is required'', code = - 1\<rparr>]"
    by (simp add: url_html_options check_required_def schema_ops option_ops string_ops Let_def)
  show ?thesis
    using unknown_flag_reported [OF none, of 1 "[''prog'', ''--bogus'']" None "[]" "''prog''" "''prog''"] none
    by (simp add: req)
qed

section \<open>Validation of required pairs\<close>

text \<open>
  C1 (as the code has it). Let the token loop end, without an exception, with the options
  \<open>opts\<close>, in which \<open>A\<close> is at position \<open>i\<close> and \<open>B\<close> at position \<open>j\<close>, the
  \<^verbatim>\<open>required\<close> of \<open>A\<close> is a non-empty string for which \<^verbatim>\<open>findOption\<close> returns \<open>B\<close>, and
  the \<^verbatim>\<open>required\<close> of \<open>B\<close> is a non-empty string for which \<^verbatim>\<open>findOption\<close> returns \<open>A\<close>
  (\<^verbatim>\<open>findOption\<close> compares with the normalized id, the long code and the short code).
  Then the callbacks of \<^verbatim>\<open>parse\<close> are those of the token loop, then those of each
  option's own check in registration order, then the final one. The check of \<open>A\<close> makes
  one error callback, \<^verbatim>\<open>"<codeA> -OR- <codeB> is required"\<close>, when neither \<open>A\<close> nor \<open>B\<close>
  holds a truthy value, and none otherwise; the check of \<open>B\<close> makes one,
  \<^verbatim>\<open>"<codeB> -OR- <codeA> is required"\<close>, in the same case, and none otherwise: two error
  callbacks for the pair, or none. For the schema of \<open>A\<close> and \<open>B\<close> alone these are all
  the callbacks that the pass over the required switches makes.
\<close>

theorem required_pair_reported_per_option:
  assumes loop: "parse_loop (args self) 1 None (options self) [] = Inr (opts, calls)"
    and A: "opts ! i = A" and B: "opts ! j = B"
    and reqA: "required A = JStr b" and reqB: "required B = JStr a"
    and a: "a \<noteq> []" and b: "b \<noteq> []"
    and findB: "findOptionIndex opts (Some b) = Some j"
    and findA: "findOptionIndex opts (Some a) = Some i"
  shows "parse self =
           Inr (calls @ concat (map (check_required opts) opts) @ [Success opts],
                self\<lparr>options := opts\<rparr>)
       \<and> i < length opts \<and> j < length opts
       \<and> map (check_required opts) opts ! i =
           (if truthy (getValue A) \<or> truthy (getValue B) then []
            else [Failure \<lparr>msg = str_string (getCode A) @ '' -OR- '' @ str_string (getCode B)
                                  @ '' is required'', code = - 1\<rparr>])
       \<and> map (check_required opts) opts ! j =
           (if truthy (getValue A) \<or> truthy (getValue B) then []
            else [Failure \<lparr>msg = str_string (getCode B) @ '' -OR- '' @ str_string (getCode A)
                                  @ '' is required'', code = - 1\<rparr>])
       \<and> (opts = [A, B] \<longrightarrow>
            parse self =
              Inr (calls @
                   (if truthy (getValue A) \<or> truthy (getValue B) then []
                    else [Failure \<lparr>msg = str_string (getCode A) @ '' -OR- ''
                                          @ str_string (getCode B) @ '' is required'', code = - 1\<rparr>,
                          Failure \<lparr>msg = str_string (getCode B) @ '' -OR- ''
                                          @ str_string (getCode A) @ '' is required'', code = - 1\<rparr>])
                   @ [Success [A, B]],
                   self\<lparr>options := [A, B]\<rparr>))"
proof -
  from findA findB have i: "i < length opts" and j: "j < length opts"
    by (simp_all add: findOptionIndex_Some_iff)
  from findB B have fB: "findOption opts (Some b) = Some B"
    by (simp add: findOption_def)
  from findA A have fA: "findOption opts (Some a) = Some A"
    by (simp add: findOption_def)
  have cA: "check_required opts A =
      (if truthy (getValue A) \<or> truthy (getValue B) then []
       else [Failure \<lparr>msg = str_string (getCode A) @ '' -OR- '' @ str_string (getCode B)
                             @ '' is required'', code = - 1\<rparr>])"
    using reqA b fB by (simp add: check_required_def is_string_def generateError_def)
  have cB: "check_required opts B =
      (if truthy (getValue A) \<or> truthy (getValue B) then []
       else [Failure \<lparr>msg = str_string (getCode B) @ '' -OR- '' @ str_string (getCode A)
                             @ '' is required'', code = - 1\<rparr>])"
    using reqB a fA by (simp add: check_required_def is_string_def generateError_def)
  have whole: "parse self =
      Inr (calls @ concat (map (check_required opts) opts) @ [Success opts],
           self\<lparr>options := opts\<rparr>)"
    using loop by (simp add: parse_def)
  have atA: "map (check_required opts) opts ! i = check_required opts A"
    using i A by simp
  have atB: "map (check_required opts) opts ! j = check_required opts B"
    using j B by simp
  have both: "check_required opts A @ check_required opts B =
      (if truthy (getValue A) \<or> truthy (getValue B) then []
       else [Failure \<lparr>msg = str_string (getCode A) @ '' -OR- ''
                             @ str_string (getCode B) @ '' is required'', code = - 1\<rparr>,
             Failure \<lparr>msg = str_string (getCode B) @ '' -OR- ''
                             @ str_string (getCode A) @ '' is required'', code = - 1\<rparr>])"
    by (simp add: cA cB)
  have pr: "parse self =
      Inr (calls @ (check_required opts A @ check_required opts B) @ [Success [A, B]],
           self\<lparr>options := [A, B]\<rparr>)"
    if "opts = [A, B]"
    using loop that by (simp add: parse_def)
  have pair: "opts = [A, B] \<longrightarrow>
            parse self =
              Inr (calls @
                   (if truthy (getValue A) \<or> truthy (getValue B) then []
                    else [Failure \<lparr>msg = str_string (getCode A) @ '' -OR- ''
                                          @ str_string (getCode B) @ '' is required'', code = - 1\<rparr>,
                          Failure \<lparr>msg = str_string (getCode B) @ '' -OR- ''
                                          @ str_string (getCode A) @ '' is required'', code = - 1\<rparr>])
                   @ [Success [A, B]],
                   self\<lparr>options := [A, B]\<rparr>)"
  proof
    assume "opts = [A, B]"
    from pr [OF this] show "parse self =
              Inr (calls @
                   (if truthy (getValue A) \<or> truthy (getValue B) then []
                    else [Failure \<lparr>msg = str_string (getCode A) @ '' -OR- ''
                                          @ str_string (getCode B) @ '' is required'', code = - 1\<rparr>,
                          Failure \<lparr>msg = str_string (getCode B) @ '' -OR- ''
                                          @ str_string (getCode A) @ '' is required'', code = - 1\<rparr>])
                   @ [Success [A, B]],
                   self\<lparr>options := [A, B]\<rparr>)"
      unfolding both .
  qed
  from whole i j atA [unfolded cA] atB [unfolded cB] pair show ?thesis
    by (intro conjI)
qed

text \<open>The theorem at \<^verbatim>\<open>["prog", "-h", "<p>"]\<close>: \<^verbatim>\<open>html\<close> is supplied, no error is reported.\<close>

theorem required_pair_reported_per_option_witness:
  "findOptionIndex (set_current (options (url_html_parser [])) 1 (JStr ''<p>'')) (Some ''html'') = Some 1
   \<and> findOptionIndex (set_current (options (url_html_parser [])) 1 (JStr ''<p>'')) (Some ''url'') = Some 0
   \<and> parse (url_html_parser [''prog'', ''-h'', ''<p>'']) =
     Inr ([Success (set_current (options (url_html_parser [])) 1 (JStr ''<p>''))],
          (url_html_parser [''prog'', ''-h'', ''<p>''])
            \<lparr>options := set_current (options (url_html_parser [])) 1 (JStr ''<p>'')\<rparr>)"
proof -
  let ?A = "new_Option url_params"
  let ?B = "(new_Option html_params)\<lparr>val := (val (new_Option html_params))\<lparr>current := JStr ''<p>''\<rparr>\<rparr>"
  let ?P = "url_html_parser [''prog'', ''-h'', ''<p>'']"
  have loop: "parse_loop (args ?P) 1 None (options ?P) [] = Inr ([?A, ?B], [])"
    by (simp add: parse_ops schema_ops option_ops string_ops Let_def)
  have A: "[?A, ?B] ! 0 = ?A" and B: "[?A, ?B] ! 1 = ?B"
    by simp_all
  have reqA: "required ?A = JStr ''html''" and reqB: "required ?B = JStr ''url''"
    by (simp_all add: schema_ops option_ops Let_def)
  have findB: "findOptionIndex [?A, ?B] (Some ''html'') = Some 1"
    and findA: "findOptionIndex [?A, ?B] (Some ''url'') = Some 0"
    by (simp_all add: schema_ops option_ops string_ops Let_def)
  have sc: "set_current (options (url_html_parser [])) (Suc 0) (JStr ''<p>'') = [?A, ?B]"
    by (simp add: url_html_options set_current_def)
  note pair = required_pair_reported_per_option [OF loop A B reqA reqB _ _ findB findA]
  have "parse ?P = Inr ([Success [?A, ?B]], ?P\<lparr>options := [?A, ?B]\<rparr>)"
    using pair by (simp add: getValue_def)
  with findA findB show ?thesis
    by (simp add: sc)
qed

text \<open>
  With neither \<^verbatim>\<open>url\<close> nor \<^verbatim>\<open>html\<close> supplied the error callback is made twice, not
  once.
\<close>

theorem required_pair_reported_twice:
  "parse (url_html_parser [''prog'']) =
     Inr ([Failure \<lparr>msg = ''url -OR- html is required'', code = - 1\<rparr>,
           Failure \<lparr>msg = ''html -OR- url is required'', code = - 1\<rparr>,
           Success (options (url_html_parser [''prog'']))],
          url_html_parser [''prog''])"
  by (simp add: parse_ops schema_ops option_ops string_ops Let_def)

section \<open>A switch without a value\<close>

text \<open>
  C2 (as the code has it). When the token resolves to an option, carries no inline
  \<^verbatim>\<open>=value\<close>, and the next token is absent, empty or starts with a dash, the parser sets
  the option's \<^verbatim>\<open>value.current\<close> to \<^verbatim>\<open>true\<close> in every case; it makes the
  \<^verbatim>\<open>"<code> requires a value"\<close> callback before that exactly when \<^verbatim>\<open>valueIsRequired()\<close>
  is truthy and no truthy value was set.
\<close>

theorem switch_without_value_sets_true:
  assumes code: "classify prev (as ! i) = Some c"
    and found: "findOptionIndex opts (Some (stripInline c)) = Some k"
    and no_inline: "indexOf (as ! i) CHR ''='' < 1"
    and no_next: "length as \<le> i + 1 \<or> as ! (i + 1) = [] \<or> startsWith (as ! (i + 1)) ''-''"
  shows "token_step as i prev opts =
     Inr (i, Some (stripInline c), set_current opts k (JBool True),
          (if otype (opts ! k) = Help then [HelpRequested] else []) @
          (if truthy (valueIsRequired (opts ! k)) \<and> \<not> truthy (getValue (opts ! k))
           then [Failure \<lparr>msg = stripInline c @ '' requires a value'', code = - 1\<rparr>]
           else []))"
  using assms by (auto simp: token_step_def Let_def generateError_def)

text \<open>The theorem at \<^verbatim>\<open>--url\<close> as the last token, on the schema of \<^verbatim>\<open>url\<close> and \<^verbatim>\<open>html\<close>.\<close>

theorem switch_without_value_sets_true_witness:
  "token_step [''prog'', ''--url''] 1 None (options (url_html_parser [])) =
     Inr (1, Some ''url'', set_current (options (url_html_parser [])) 0 (JBool True),
          [Failure \<lparr>msg = ''url requires a value'', code = - 1\<rparr>])"
proof -
  have code: "classify None ([''prog'', ''--url''] ! 1) = Some ''url''"
    by (simp add: string_ops)
  have strip: "stripInline ''url'' = ''url''"
    by (simp add: string_ops)
  have found: "findOptionIndex (options (url_html_parser [])) (Some (stripInline ''url'')) = Some 0"
    by (simp add: strip url_html_options schema_ops option_ops string_ops Let_def)
  have no_inline: "indexOf ([''prog'', ''--url''] ! 1) CHR ''='' < 1"
    by simp
  have first: "options (url_html_parser []) ! 0 = new_Option url_params"
    by (simp add: url_html_options)
  show ?thesis
    using switch_without_value_sets_true [OF code found no_inline]
    by (simp add: strip first schema_ops option_ops Let_def)
qed

text \<open>
  Parsing \<^verbatim>\<open>["prog", "--url"]\<close> reports that \<^verbatim>\<open>url\<close> requires a value and changes its
  \<^verbatim>\<open>value.current\<close> from \<^verbatim>\<open>null\<close> to \<^verbatim>\<open>true\<close> all the same.
\<close>

theorem required_value_error_still_sets_true:
  "map getValue (options (url_html_parser [''prog'', ''--url''])) = [JNull, JNull]
   \<and> parse (url_html_parser [''prog'', ''--url'']) =
       Inr ([Failure \<lparr>msg = ''url requires a value'', code = - 1\<rparr>,
             Success (set_current (options (url_html_parser [''prog'', ''--url''])) 0 (JBool True))],
            (url_html_parser [''prog'', ''--url''])
              \<lparr>options := set_current (options (url_html_parser [''prog'', ''--url''])) 0 (JBool True)\<rparr>)
   \<and> map getValue (set_current (options (url_html_parser [''prog'', ''--url''])) 0 (JBool True))
       = [JBool True, JNull]"
  by (simp add: parse_ops schema_ops option_ops string_ops Let_def)

section \<open>Long switches\<close>

text \<open>
  C4 (as the code has it). A token \<^verbatim>\<open>--X\<close>, with \<open>X\<close> an ASCII string without \<^verbatim>\<open>=\<close>, is
  looked up by its lowercased text, which is compared exactly with the normalized id,
  the long code and the short code of each option, in registration order. Hence, for a
  registered option with long code \<open>L\<close> that no earlier option answers to, the token
  resolves to this option if and only if the lowercased \<open>X\<close> is exactly \<open>L\<close>, or is
  its normalized id or its short code. When \<open>L\<close> has no letter \<^verbatim>\<open>A\<close> to \<^verbatim>\<open>Z\<close>, every
  \<open>X\<close> that equals \<open>L\<close> up to case resolves to it. When \<open>L\<close> has a letter \<^verbatim>\<open>A\<close> to
  \<^verbatim>\<open>Z\<close>, the lowercased \<open>X\<close> is never \<open>L\<close>, and the token resolves to the option only
  through its normalized id or its short code.
\<close>

theorem long_switch_resolution:
  assumes k: "k < length opts" and L: "longCode (opts ! k) = Some L"
    and X: "CHR ''='' \<notin> set X" and plain: "ascii X"
    and first: "\<forall>j<k. \<not> option_matches (opts ! j) (Some (toLowerCase X))"
  shows "classify prev (''--'' @ X) = Some (toLowerCase X)
       \<and> stripInline (toLowerCase X) = toLowerCase X
       \<and> (findOptionIndex opts (Some (toLowerCase X)) = Some k \<longleftrightarrow>
            toLowerCase X = L \<or> getId (opts ! k) = Some (toLowerCase X)
            \<or> shortCode (opts ! k) = Some (toLowerCase X))
       \<and> (toLowerCase L = L \<and> toLowerCase X = toLowerCase L \<longrightarrow>
            findOptionIndex opts (Some (toLowerCase X)) = Some k)
       \<and> (toLowerCase L \<noteq> L \<longrightarrow>
            toLowerCase X \<noteq> L
            \<and> (findOptionIndex opts (Some (toLowerCase X)) = Some k \<longleftrightarrow>
                 getId (opts ! k) = Some (toLowerCase X)
                 \<or> shortCode (opts ! k) = Some (toLowerCase X)))"
proof -
  have strip: "stripInline (toLowerCase X) = toLowerCase X"
    using X by (simp add: stripInline_no_eq toLowerCase_no_eq)
  have res: "findOptionIndex opts (Some (toLowerCase X)) = Some k \<longleftrightarrow>
      toLowerCase X = L \<or> getId (opts ! k) = Some (toLowerCase X)
      \<or> shortCode (opts ! k) = Some (toLowerCase X)"
    using k L first by (auto simp: findOptionIndex_Some_iff option_matches_def)
  have low: "toLowerCase L = L \<and> toLowerCase X = toLowerCase L \<longrightarrow>
      findOptionIndex opts (Some (toLowerCase X)) = Some k"
  proof
    assume "toLowerCase L = L \<and> toLowerCase X = toLowerCase L"
    then have "toLowerCase X = L"
      by simp
    then show "findOptionIndex opts (Some (toLowerCase X)) = Some k"
      by (subst res) (rule disjI1)
  qed
  have never: "toLowerCase X \<noteq> L" if up: "toLowerCase L \<noteq> L"
  proof
    assume "toLowerCase X = L"
    then have "toLowerCase L = toLowerCase (toLowerCase X)"
      by simp
    also have "\<dots> = toLowerCase X"
      by (rule toLowerCase_idem)
    also have "\<dots> = L"
      by fact
    finally show False
      using up by simp
  qed
  have upper: "toLowerCase L \<noteq> L \<longrightarrow>
      toLowerCase X \<noteq> L
      \<and> (findOptionIndex opts (Some (toLowerCase X)) = Some k \<longleftrightarrow>
           getId (opts ! k) = Some (toLowerCase X)
           \<or> shortCode (opts ! k) = Some (toLowerCase X))"
    using never res by simp
  from classify_long [of prev X] strip res low upper show ?thesis
    by (intro conjI)
qed

text \<open>The theorem at \<^verbatim>\<open>--HTML\<close> on the schema of \<^verbatim>\<open>url\<close> and \<^verbatim>\<open>html\<close>.\<close>

theorem long_switch_resolution_witness:
  "ascii ''HTML''
   \<and> classify None (''--'' @ ''HTML'') = Some ''html''
   \<and> findOptionIndex (options (url_html_parser [])) (Some ''html'') = Some 1"
proof -
  let ?opts = "options (url_html_parser [])"
  have low: "toLowerCase ''HTML'' = ''html''" "toLowerCase ''html'' = ''html''"
    by (simp_all add: string_ops)
  have k: "1 < length ?opts" and L: "longCode (?opts ! 1) = Some ''html''"
    by (simp_all add: url_html_options option_ops schema_ops Let_def)
  have X: "CHR ''='' \<notin> set ''HTML''"
    by simp
  have plain: "ascii ''HTML''"
    by (simp add: ascii_def)
  have first: "\<forall>j<1. \<not> option_matches (?opts ! j) (Some (toLowerCase ''HTML''))"
    by (simp add: low url_html_options option_ops schema_ops string_ops Let_def)
  show ?thesis
    using long_switch_resolution [OF k L X plain first, of None] plain
    by (simp add: low)
qed

text \<open>
  An option registered with the long code \<^verbatim>\<open>Foo\<close> is not found by \<^verbatim>\<open>--Foo\<close>: the token
  is lowercased, the long code is not.
\<close>

theorem upper_case_long_code_not_found:
  "longCode (new_Option (no_params\<lparr>p_longCode := Some ''Foo''\<rparr>)) = Some ''Foo''
   \<and> parse (addOption (create [''prog'', ''--Foo''] None) (Single (no_params\<lparr>p_longCode := Some ''Foo''\<rparr>))) =
       Inr ([Failure \<lparr>msg = ''foo not found in options'', code = - 1\<rparr>,
             Success [new_Option (no_params\<lparr>p_longCode := Some ''Foo''\<rparr>)]],
            addOption (create [''prog'', ''--Foo''] None) (Single (no_params\<lparr>p_longCode := Some ''Foo''\<rparr>)))"
  by (simp add: parse_ops schema_ops option_ops string_ops Let_def)

section \<open>Inline values\<close>

text \<open>
  C7. A token \<^verbatim>\<open>--code=value\<close> is to set \<^verbatim>\<open>value.current\<close> to the value text. The code
  takes \<^verbatim>\<open>arg.split("=")[1]\<close>, the text between the first and the second \<^verbatim>\<open>=\<close>: on
  \<^verbatim>\<open>["prog", "--url=http://x?a=b"]\<close> the option \<^verbatim>\<open>url\<close> receives \<^verbatim>\<open>"http://x?a"\<close>, although
  the switch code is cut at the first \<^verbatim>\<open>=\<close> only.
\<close>

theorem inline_value_cut_at_second_equals:
  "parse (url_html_parser [''prog'', ''--url=http://x?a=b'']) =
     Inr ([Success (set_current (options (url_html_parser [''prog'', ''--url=http://x?a=b''])) 0 (JStr ''http://x?a''))],
          (url_html_parser [''prog'', ''--url=http://x?a=b''])
            \<lparr>options := set_current (options (url_html_parser [''prog'', ''--url=http://x?a=b''])) 0 (JStr ''http://x?a'')\<rparr>)
   \<and> map getValue (set_current (options (url_html_parser [''prog'', ''--url=http://x?a=b''])) 0 (JStr ''http://x?a''))
       = [JStr ''http://x?a'', JNull]"
  by (simp add: parse_ops schema_ops option_ops string_ops Let_def)

text \<open>
  The scenario with \<^verbatim>\<open>output-base64-format\<close>, whose value holds no \<^verbatim>\<open>=\<close>: the inline
  value \<^verbatim>\<open>"JPEG"\<close> is stored with its case, beside the default \<^verbatim>\<open>"PNG"\<close>.
\<close>

lemma scenario_C_inline_value:
  "parse (addOption (create [''prog'', ''--output-base64-format=JPEG''] None)
            (Single output_base64_format_params)) =
     Inr ([Success [(new_Option output_base64_format_params)
                      \<lparr>val := (val (new_Option output_base64_format_params))\<lparr>current := JStr ''JPEG''\<rparr>\<rparr>]],
          (addOption (create [''prog'', ''--output-base64-format=JPEG''] None)
             (Single output_base64_format_params))
            \<lparr>options := [(new_Option output_base64_format_params)
                      \<lparr>val := (val (new_Option output_base64_format_params))\<lparr>current := JStr ''JPEG''\<rparr>\<rparr>]\<rparr>)
   \<and> default_value (val (new_Option output_base64_format_params)) = JStr ''PNG''
   \<and> getId (new_Option output_base64_format_params) = Some ''outputBase64Format''"
  by (simp add: parse_ops schema_ops option_ops string_ops Let_def)

section \<open>Registration\<close>

lemma option_matches_own_id: "option_matches opt (getId opt)"
  by (simp add: option_matches_def)

lemma register_cases:
  "register opts op =
     (if findOptionIndex opts (getId (new_Option op)) = None then opts @ [new_Option op] else opts)"
  by (auto simp: register_def findOption_def Let_def split: option.splits)

lemma register_twice:
  assumes "getId (new_Option s1) = getId (new_Option s2)"
  shows "register (register opts s1) s2 = register opts s1"
proof (cases "findOptionIndex opts (getId (new_Option s1))")
  case None
  have own: "option_matches (new_Option s1) (getId (new_Option s2))"
    unfolding assms [symmetric] by (rule option_matches_own_id)
  from None have "findOptionIndex opts (getId (new_Option s2)) = None"
    unfolding assms .
  with own have "findOptionIndex (opts @ [new_Option s1]) (getId (new_Option s2)) = Some (length opts)"
    by (simp add: findOptionIndex_append)
  with None show ?thesis
    by (simp add: register_cases)
next
  case (Some i)
  with assms show ?thesis
    by (simp add: register_cases)
qed

text \<open>
  C8. When two specs have the same normalized id, registering the second after the
  first changes nothing, whether they come in two calls of \<^verbatim>\<open>addOption\<close> or in one
  array; on a new parser the schema then holds exactly the option built from the first
  spec. \<^verbatim>\<open>addOption\<close> has no error path and returns the parser it was called on, with
  only its options changed.
\<close>

theorem addOption_first_wins:
  assumes "getId (new_Option s1) = getId (new_Option s2)"
  shows "addOption (addOption self (Single s1)) (Single s2) = addOption self (Single s1)
       \<and> addOption self (Many [s1, s2]) = addOption self (Single s1)
       \<and> options (addOption (create as b) (Many [s1, s2])) = [new_Option s1]
       \<and> options (addOption (addOption (create as b) (Single s1)) (Single s2)) = [new_Option s1]
       \<and> args (addOption self a) = args self
       \<and> scriptName (addOption self a) = scriptName self"
proof -
  have empty: "register [] s1 = [new_Option s1]"
    by (simp add: register_cases)
  have same: "args (addOption self a) = args self \<and> scriptName (addOption self a) = scriptName self"
    by (cases a) (simp_all add: addOption_def)
  from register_twice [OF assms, of "[]"] empty have again: "register [new_Option s1] s2 = [new_Option s1]"
    by simp
  from register_twice [OF assms] empty again same show ?thesis
    by (simp add: addOption_def create_def)
qed

text \<open>The theorem at \<^verbatim>\<open>url\<close> followed by a spec with the id \<^verbatim>\<open>url\<close> and nothing else in common.\<close>

theorem addOption_first_wins_witness:
  "getId (new_Option url_params) = getId (new_Option (no_params\<lparr>p_id := Some ''url'', p_desc := Some ''again''\<rparr>))
   \<and> options (addOption (create [''prog''] None)
                (Many [url_params, no_params\<lparr>p_id := Some ''url'', p_desc := Some ''again''\<rparr>]))
       = [new_Option url_params]"
proof -
  have same: "getId (new_Option url_params) =
      getId (new_Option (no_params\<lparr>p_id := Some ''url'', p_desc := Some ''again''\<rparr>))"
    by (simp add: schema_ops option_ops string_ops Let_def)
  note first = addOption_first_wins [OF same, where as = "[''prog'']" and b = None
      and self = "create [] None" and a = "Single url_params"]
  from same first [THEN conjunct2, THEN conjunct2, THEN conjunct1] show ?thesis
    by (rule conjI)
qed

lemma new_Option_oid: "oid (new_Option op) \<noteq> Some []"
  by (simp add: new_Option_def str_or_def str_truthy_def Let_def split: option.splits)

lemma well_registered_register:
  assumes "well_registered opts"
  shows "well_registered (register opts op)"
proof (cases "findOptionIndex opts (getId (new_Option op))")
  case (Some i)
  with assms show ?thesis
    by (simp add: register_cases)
next
  case None
  have "findOptionIndex (opts @ [new_Option op]) (getId ((opts @ [new_Option op]) ! i)) = Some i
        \<and> oid ((opts @ [new_Option op]) ! i) \<noteq> Some []"
    if "i < Suc (length opts)" for i
  proof (cases "i < length opts")
    case True
    with assms show ?thesis
      by (simp add: well_registered_def findOptionIndex_append nth_append)
  next
    case False
    with that have "i = length opts"
      by simp
    with None show ?thesis
      by (simp add: findOptionIndex_append option_matches_own_id new_Option_oid)
  qed
  with None show ?thesis
    by (simp add: register_cases well_registered_def)
qed

lemma well_registered_foldl_register:
  "well_registered opts \<Longrightarrow> well_registered (foldl register opts ops)"
  by (induction ops arbitrary: opts) (simp_all add: well_registered_register)

lemma well_registered_addOption:
  "well_registered (options self) \<Longrightarrow> well_registered (options (addOption self a))"
  by (cases a) (simp_all add: addOption_def well_registered_register well_registered_foldl_register)

lemma well_registered_addOptions:
  "well_registered (options self) \<Longrightarrow> well_registered (options (foldl addOption self adds))"
  by (induction adds arbitrary: self) (simp_all add: well_registered_addOption)

lemma well_registered_create: "well_registered (options (create as b))"
  by (simp add: well_registered_def create_def)

text \<open>
  C9 (as the code has it). In a schema built by \<^verbatim>\<open>addOption\<close> on a new parser, for every
  option with the raw id \<open>X\<close>, \<^verbatim>\<open>findOption\<close> called with the camelCase normalization of
  \<open>X\<close> returns that option, and the option's \<^verbatim>\<open>getId()\<close> is that normalization;
  \<^verbatim>\<open>findOption(X)\<close> with the raw id returns it when \<open>X\<close> is its own normalization.
\<close>

theorem findOption_by_normalized_id:
  assumes mem: "opt \<in> set (options (foldl addOption (create as b) adds))"
    and X: "oid opt = Some X"
  shows "findOption (options (foldl addOption (create as b) adds)) (Some (toCamelCase X)) = Some opt
       \<and> getId opt = Some (toCamelCase X)
       \<and> (toCamelCase X = X \<longrightarrow>
            findOption (options (foldl addOption (create as b) adds)) (Some X) = Some opt)"
proof -
  let ?opts = "options (foldl addOption (create as b) adds)"
  have wr: "well_registered ?opts"
    by (rule well_registered_addOptions) (rule well_registered_create)
  from mem obtain i where i: "i < length ?opts" "?opts ! i = opt"
    by (auto simp: in_set_conv_nth)
  with wr X have "X \<noteq> []" and idx: "findOptionIndex ?opts (getId opt) = Some i"
    by (auto simp: well_registered_def)
  with X have id: "getId opt = Some (toCamelCase X)"
    by (simp add: getId_def str_or_def str_truthy_def)
  from idx i have found: "findOption ?opts (Some (toCamelCase X)) = Some opt"
    by (simp add: findOption_def id)
  have "findOption ?opts (Some X) = Some opt" if "toCamelCase X = X"
    using found that by simp
  with id found show ?thesis
    by simp
qed

text \<open>The theorem at \<^verbatim>\<open>output-base64-format\<close>, registered after \<^verbatim>\<open>url\<close> and \<^verbatim>\<open>html\<close>.\<close>

theorem findOption_by_normalized_id_witness:
  "findOption (options (foldl addOption (create [] None) [Many [url_params, html_params], Single output_base64_format_params]))
     (Some ''outputBase64Format'') = Some (new_Option output_base64_format_params)
   \<and> getId (new_Option output_base64_format_params) = Some ''outputBase64Format''"
proof -
  let ?opts = "options (foldl addOption (create [] None) [Many [url_params, html_params], Single output_base64_format_params])"
  have opts: "?opts = [new_Option url_params, new_Option html_params, new_Option output_base64_format_params]"
    by (simp add: schema_ops option_ops string_ops Let_def)
  have mem: "new_Option output_base64_format_params \<in> set ?opts"
    unfolding opts by simp
  have X: "oid (new_Option output_base64_format_params) = Some ''output-base64-format''"
    by (simp add: schema_ops option_ops Let_def)
  have camel: "toCamelCase ''output-base64-format'' = ''outputBase64Format''"
    by (simp add: string_ops)
  note found = findOption_by_normalized_id [OF mem X, unfolded camel]
  from found [THEN conjunct1] found [THEN conjunct2, THEN conjunct1] show ?thesis
    by (rule conjI)
qed

text \<open>
  An option registered with the id \<^verbatim>\<open>a-b\<close> and no codes is not found under \<^verbatim>\<open>a-b\<close>:
  \<^verbatim>\<open>findOption\<close> compares its argument with the normalized id \<^verbatim>\<open>aB\<close>.
\<close>

theorem findOption_misses_hyphenated_id:
  "oid (new_Option (no_params\<lparr>p_id := Some ''a-b''\<rparr>)) = Some ''a-b''
   \<and> options (addOption (create [] None) (Single (no_params\<lparr>p_id := Some ''a-b''\<rparr>)))
       = [new_Option (no_params\<lparr>p_id := Some ''a-b''\<rparr>)]
   \<and> findOption (options (addOption (create [] None) (Single (no_params\<lparr>p_id := Some ''a-b''\<rparr>))))
        (Some ''a-b'') = None
   \<and> getId (new_Option (no_params\<lparr>p_id := Some ''a-b''\<rparr>)) = Some ''aB''"
  by (simp add: schema_ops option_ops string_ops Let_def)

section \<open>Defaults\<close>

text \<open>
  C10. When the spec's \<^verbatim>\<open>value.default\<close> is \<^verbatim>\<open>false\<close>, \<^verbatim>\<open>0\<close> or the empty string, the
  constructed option has \<^verbatim>\<open>value.default == null\<close>, \<^verbatim>\<open>hasDefaultValue()\<close> is falsy, and
  the normal rendering ends after the description, with no \<^verbatim>\<open>[default: ...]\<close> suffix.
\<close>

theorem falsy_default_is_null:
  assumes v: "p_value opt = Some v"
    and falsy: "p_default v = JBool False \<or> p_default v = JNum 0 \<or> p_default v = JStr []"
  shows "default_value (val (new_Option opt)) = JNull
       \<and> \<not> truthy (hasDefaultValue (new_Option opt))
       \<and> normal (new_Option opt) =
           ''   ''
           @ (if str_truthy (shortCode (new_Option opt))
              then ''-'' @ str_string (shortCode (new_Option opt)) @ '', '' else [])
           @ (if str_truthy (longCode (new_Option opt))
              then ''--'' @ str_string (longCode (new_Option opt)) else [])
           @ (if truthy (valueIsRequired (new_Option opt)) then ''[=]'' else [])
           @ '': ''
           @ (if str_truthy (description (new_Option opt))
              then str_string (description (new_Option opt)) else [])
           @ [CHR 0x0A]"
proof -
  have d: "default_value (val (new_Option opt)) = JNull"
    using v falsy by (auto simp: new_Option_def value_field_def js_or_def Let_def)
  then have h: "\<not> truthy (hasDefaultValue (new_Option opt))"
    by (simp add: hasDefaultValue_def)
  from d h show ?thesis
    by (simp add: normal_def)
qed

text \<open>The theorem at the host's \<^verbatim>\<open>debug\<close> option, whose default is \<^verbatim>\<open>false\<close>.\<close>

theorem falsy_default_is_null_witness:
  "default_value (val (new_Option debug_params)) = JNull
   \<and> normal (new_Option debug_params) = ''   --debug: prints more verbose output'' @ [CHR 0x0A]"
proof -
  have v: "p_value debug_params = Some (no_value\<lparr> p_default := JBool False \<rparr>)"
    by (simp add: debug_params_def no_params_def)
  have falsy: "p_default (no_value\<lparr> p_default := JBool False \<rparr>) = JBool False
      \<or> p_default (no_value\<lparr> p_default := JBool False \<rparr>) = JNum 0
      \<or> p_default (no_value\<lparr> p_default := JBool False \<rparr>) = JStr []"
    by simp
  have fields: "shortCode (new_Option debug_params) = None"
    "longCode (new_Option debug_params) = Some ''debug''"
    "description (new_Option debug_params) = Some ''prints more verbose output''"
    "valueIsRequired (new_Option debug_params) = JBool False"
    by (simp_all add: schema_ops option_ops Let_def)
  from falsy_default_is_null [OF v falsy] show ?thesis
    by (simp add: fields str_truthy_def str_string_def)
qed

end
